theory Spec2Isabelle
  imports Complex_Main "HOL-Library.Word"
begin

section \<open>JavaScript values\<close>

text \<open>
  A JavaScript string is a sequence of UTF-16 code units; \<open>charCodeAt\<close> reads one as a
  number between 0 and 65535, and \<open>split('')\<close> cuts a string into its code units.
\<close>

type_synonym jsstring = "16 word list"

definition ascii :: "string \<Rightarrow> jsstring" where
  "ascii s = map of_char s"

text \<open>
  A property of a raw JSON object is missing (\<open>undefined\<close>), \<open>null\<close>, or a value
  of the type the endpoint documents for it.
\<close>

datatype 'a jsfield = Undefined | Null | Val 'a

text \<open>
  Numbers: the finite ones as exact rationals, and the three special values. No
  arithmetic of the modelled functions rounds: the sums of character codes are integers
  far below \<open>2 ^ 53\<close>, and the delays are read as exact numbers.
\<close>

datatype jsnum = Num rat | NaN | PosInf | NegInf

definition js_gt0 :: "jsnum \<Rightarrow> bool" where
  "js_gt0 x = (case x of Num r \<Rightarrow> 0 < r | PosInf \<Rightarrow> True | _ \<Rightarrow> False)"

definition js_le0 :: "jsnum \<Rightarrow> bool" where
  "js_le0 x = (case x of Num r \<Rightarrow> r \<le> 0 | NegInf \<Rightarrow> True | _ \<Rightarrow> False)"

text \<open>Truthiness: the empty string, 0, NaN, \<open>null\<close> and \<open>undefined\<close> are falsy.\<close>

definition truthy_str :: "jsstring jsfield \<Rightarrow> bool" where
  "truthy_str f = (case f of Val s \<Rightarrow> s \<noteq> [] | _ \<Rightarrow> False)"

definition truthy_num :: "jsnum jsfield \<Rightarrow> bool" where
  "truthy_num f = (case f of Val (Num r) \<Rightarrow> r \<noteq> 0 | Val NaN \<Rightarrow> False | Val _ \<Rightarrow> True | _ \<Rightarrow> False)"

text \<open>\<open>f || d\<close> with a string or number literal \<open>d\<close> on the right.\<close>

definition str_or :: "jsstring jsfield \<Rightarrow> jsstring \<Rightarrow> jsstring" where
  "str_or f d = (case f of Val s \<Rightarrow> if s \<noteq> [] then s else d | _ \<Rightarrow> d)"

definition num_or :: "jsnum jsfield \<Rightarrow> jsnum \<Rightarrow> jsnum" where
  "num_or f d = (if truthy_num f then (case f of Val n \<Rightarrow> n | _ \<Rightarrow> d) else d)"

text \<open>\<open>f || g\<close> with another property on the right, and \<open>f || null\<close>.\<close>

definition field_or :: "jsstring jsfield \<Rightarrow> jsstring jsfield \<Rightarrow> jsstring jsfield" where
  "field_or f g = (if truthy_str f then f else g)"

text \<open>A value inside a template literal: \<open>`${x}`\<close>.\<close>

definition template :: "jsstring jsfield \<Rightarrow> jsstring" where
  "template f = (case f of Val s \<Rightarrow> s | Null \<Rightarrow> ascii ''null'' | Undefined \<Rightarrow> ascii ''undefined'')"

text \<open>\<open>String.prototype.includes\<close>.\<close>

fun js_includes :: "jsstring \<Rightarrow> jsstring \<Rightarrow> bool" where
  "js_includes [] p = (p = [])"
| "js_includes (c # cs) p = (take (length p) (c # cs) = p \<or> js_includes cs p)"

text \<open>An integer as a string: its decimal digits, with a minus sign below zero.\<close>

definition digit :: "nat \<Rightarrow> 16 word" where
  "digit d = of_nat (48 + d)"

fun digits :: "nat \<Rightarrow> jsstring" where
  "digits n = (if n < 10 then [digit n] else digits (n div 10) @ [digit (n mod 10)])"

declare digits.simps [simp del]

definition int_to_string :: "int \<Rightarrow> jsstring" where
  "int_to_string i = (if i < 0 then ascii ''-'' @ digits (nat (- i)) else digits (nat i))"

text \<open>Reading a string of decimal digits back, to state what \<open>digits\<close> writes.\<close>

definition digits_value :: "jsstring \<Rightarrow> nat" where
  "digits_value s = foldl (\<lambda>acc c. 10 * acc + (unat c - 48)) 0 s"

section \<open>generateTempId\<close>

text \<open>
  \<open>Date.now()\<close> is the first argument. The reduction over the code units is the
  source's \<open>reduce((acc, char) => acc + char.charCodeAt(0), 0)\<close>.
\<close>

definition generateTempId :: "int \<Rightarrow> jsstring jsfield \<Rightarrow> jsstring jsfield \<Rightarrow> jsstring" where
  "generateTempId now name brand =
     (let combinedString = template name @ str_or brand [] @ int_to_string now
      in ascii ''temp_'' @ digits (foldl (\<lambda>acc char. acc + unat char) 0 combinedString))"

text \<open>The checksum as the specification words it: the sum of the character codes.\<close>

definition char_code_sum :: "jsstring \<Rightarrow> nat" where
  "char_code_sum s = sum_list (map unat s)"

section \<open>Data model\<close>

text \<open>
  One element of the array the search endpoint returns. It is untyped in the source
  (\<open>any\<close>); every property the code reads may be missing or \<open>null\<close>.
\<close>

record raw_product =
  raw_name :: "jsstring jsfield"
  raw_brand :: "jsstring jsfield"
  raw_calories :: "jsnum jsfield"
  raw_protein :: "jsnum jsfield"
  raw_fat :: "jsnum jsfield"
  raw_carbs :: "jsnum jsfield"
  raw_sugar :: "jsnum jsfield"
  raw_image_url :: "jsstring jsfield"
  raw_off_id :: "jsstring jsfield"
  raw_barcode :: "jsstring jsfield"

text \<open>
  The interface \<open>FoodProduct\<close>. \<open>name\<close> and \<open>sugar\<close> are copied from the raw
  object as they are; \<open>off_id\<close> is optional in the interface.
\<close>

record FoodProduct =
  name :: "jsstring jsfield"
  brand :: jsstring
  calories :: jsnum
  protein :: jsnum
  fat :: jsnum
  carbs :: jsnum
  sugar :: "jsnum jsfield"
  image_url :: jsstring
  off_id :: "jsstring jsfield"

text \<open>A row of the table \<open>livsmedelskache\<close>, as the two inserts of the source build it.\<close>

record cache_row =
  cache_off_id :: "jsstring jsfield"
  produktnamn :: "jsstring jsfield"
  varumarke :: "jsstring jsfield"
  energi_kcal_100g :: jsnum
  protein_100g :: jsnum
  kolhydrater_100g :: jsnum
  fett_100g :: jsnum
  bild_url :: "jsstring jsfield"

text \<open>A row of the table \<open>maltidsinlagg\<close>.\<close>

record meal_row =
  daglig_logg_id :: jsstring
  maltidstyp :: jsstring
  meal_off_id :: "jsstring jsfield"
  custom_namn :: "jsstring jsfield"
  antal_gram :: jsnum

record db =
  livsmedelskache :: "cache_row list"
  maltidsinlagg :: "meal_row list"

text \<open>An error object; only its \<open>message\<close> is read.\<close>

datatype js_error = Error "jsstring jsfield"

fun err_message :: "js_error \<Rightarrow> jsstring jsfield" where
  "err_message (Error m) = m"

text \<open>
  The store is a collaborator. Each request to it succeeds, resolves with an
  \<open>error\<close> property, or rejects; what happens is given from outside, one outcome for
  each request in order, and a request beyond the list succeeds.
\<close>

datatype store_outcome = Succeeds | ReturnsError js_error | Throws js_error

fun next_outcome :: "store_outcome list \<Rightarrow> store_outcome \<times> store_outcome list" where
  "next_outcome [] = (Succeeds, [])"
| "next_outcome (f # fs) = (f, fs)"

text \<open>
  \<open>select('off_id').eq('off_id', k).maybeSingle()\<close>: the row when exactly one row has the
  key, and no data otherwise.
\<close>

definition maybeSingle :: "cache_row list \<Rightarrow> jsstring jsfield \<Rightarrow> cache_row option" where
  "maybeSingle rows k =
     (case filter (\<lambda>r. cache_off_id r = k) rows of [r] \<Rightarrow> Some r | _ \<Rightarrow> None)"

section \<open>cacheSearchResults\<close>

text \<open>\<open>product.off_id || product.barcode\<close>.\<close>

definition canonical_id :: "raw_product \<Rightarrow> jsstring jsfield" where
  "canonical_id product = field_or (raw_off_id product) (raw_barcode product)"

definition new_cache_row :: "jsstring jsfield \<Rightarrow> raw_product \<Rightarrow> cache_row" where
  "new_cache_row oid product =
     \<lparr> cache_off_id = oid,
       produktnamn = raw_name product,
       varumarke = field_or (raw_brand product) Null,
       energi_kcal_100g = num_or (raw_calories product) (Num 0),
       protein_100g = num_or (raw_protein product) (Num 0),
       kolhydrater_100g = num_or (raw_carbs product) (Num 0),
       fett_100g = num_or (raw_fat product) (Num 0),
       bild_url = field_or (raw_image_url product) Null \<rparr>"

text \<open>
  The body of the \<open>for\<close> loop for one product: \<open>Inr ()\<close> when the iteration ends
  (also by \<open>continue\<close>), \<open>Inl e\<close> when a request rejects. The \<open>error\<close> property of a
  resolved request is not read by the source.
\<close>

definition cache_product ::
  "store_outcome list \<Rightarrow> cache_row list \<Rightarrow> raw_product \<Rightarrow>
   (js_error + unit) \<times> store_outcome list \<times> cache_row list" where
  "cache_product fs rows product =
     (if \<not> truthy_str (raw_off_id product) \<and> \<not> truthy_str (raw_barcode product)
      then (Inr (), fs, rows)
      else
        (let oid = canonical_id product;
             (lookup, fs1) = next_outcome fs
         in case lookup of
              Throws e \<Rightarrow> (Inl e, fs1, rows)
            | _ \<Rightarrow>
              (let existingProduct =
                     (case lookup of Succeeds \<Rightarrow> maybeSingle rows oid | _ \<Rightarrow> None)
               in if existingProduct \<noteq> None then (Inr (), fs1, rows)
                  else
                    (let (ins, fs2) = next_outcome fs1
                     in case ins of
                          Throws e \<Rightarrow> (Inl e, fs2, rows)
                        | ReturnsError e \<Rightarrow> (Inr (), fs2, rows)
                        | Succeeds \<Rightarrow> (Inr (), fs2, rows @ [new_cache_row oid product])))))"

fun cache_loop ::
  "store_outcome list \<Rightarrow> cache_row list \<Rightarrow> raw_product list \<Rightarrow>
   (js_error + unit) \<times> cache_row list" where
  "cache_loop fs rows [] = (Inr (), rows)"
| "cache_loop fs rows (product # products) =
     (case cache_product fs rows product of
        (Inl e, fs', rows') \<Rightarrow> (Inl e, rows')
      | (Inr u, fs', rows') \<Rightarrow> cache_loop fs' rows' products)"

text \<open>The \<open>catch\<close> logs the error and returns: only the table is left.\<close>

definition cacheSearchResults ::
  "store_outcome list \<Rightarrow> cache_row list \<Rightarrow> raw_product list \<Rightarrow> cache_row list" where
  "cacheSearchResults fs rows products = snd (cache_loop fs rows products)"


section \<open>searchProductsByName\<close>

definition maxRetries :: nat where
  "maxRetries = 3"

definition baseDelay :: rat where
  "baseDelay = 1000"

definition msg_search_failed :: jsstring where
  "msg_search_failed = ascii ''S'' @ [0xF6] @ ascii ''kningen misslyckades: ''"

definition msg_invalid_response :: jsstring where
  "msg_invalid_response = ascii ''Ogiltig respons fr'' @ [0xE5] @ ascii ''n servern''"

definition msg_cannot_connect :: jsstring where
  "msg_cannot_connect =
     ascii ''Kunde inte ansluta till servern. Kontrollera din internetanslutning och f''
     @ [0xF6] @ ascii ''rs'' @ [0xF6] @ ascii ''k igen.''"

definition msg_generic :: jsstring where
  "msg_generic =
     ascii ''Ett fel uppstod vid s'' @ [0xF6] @ ascii ''kning. F'' @ [0xF6] @ ascii ''rs''
     @ [0xF6] @ ascii ''k igen om en stund.''"

text \<open>
  What \<open>supabase.functions.invoke\<close> gives on one attempt: the promise rejects, or it
  resolves with \<open>data\<close> and \<open>error\<close>.
\<close>

record fn_error =
  status :: "int option"
  message :: jsstring

datatype payload = NotArray | Items "raw_product list"

datatype invoke_result = Rejects js_error | Resolves payload "fn_error option"

text \<open>
  The outside of one call: the endpoint's answer on each attempt, \<open>Math.random()\<close> on
  each attempt, and \<open>Date.now()\<close> when the element at each index is normalised.
\<close>

record search_env =
  invoke :: "nat \<Rightarrow> invoke_result"
  math_random :: "nat \<Rightarrow> rat"
  date_now :: "nat \<Rightarrow> int"

definition normalize :: "int \<Rightarrow> raw_product \<Rightarrow> FoodProduct" where
  "normalize now item =
     \<lparr> name = raw_name item,
       brand = str_or (raw_brand item) [],
       calories = num_or (raw_calories item) (Num 0),
       protein = num_or (raw_protein item) (Num 0),
       fat = num_or (raw_fat item) (Num 0),
       carbs = num_or (raw_carbs item) (Num 0),
       sugar = raw_sugar item,
       image_url = str_or (raw_image_url item) [],
       off_id = field_or (canonical_id item)
                  (Val (generateTempId now (raw_name item) (raw_brand item))) \<rparr>"

text \<open>The body of the \<open>try\<close> block on one attempt.\<close>

datatype attempt_result = Returned "FoodProduct list" "cache_row list" | Thrown js_error

definition try_attempt ::
  "search_env \<Rightarrow> store_outcome list \<Rightarrow> cache_row list \<Rightarrow> nat \<Rightarrow> attempt_result" where
  "try_attempt env fs rows attempt =
     (case invoke env attempt of
        Rejects e \<Rightarrow> Thrown e
      | Resolves data error \<Rightarrow>
          (case error of
             Some e \<Rightarrow>
               if status e = Some 404 then Returned [] rows
               else Thrown (Error (Val (msg_search_failed @ message e)))
           | None \<Rightarrow>
               (case data of
                  NotArray \<Rightarrow> Thrown (Error (Val msg_invalid_response))
                | Items items \<Rightarrow>
                    (let rows' = cacheSearchResults fs rows items
                     in Returned
                          (map (\<lambda>(i, item). normalize (date_now env i) item)
                             (zip [0..<length items] items))
                          rows'))))"

text \<open>\<open>m && m.includes(p)\<close>.\<close>

definition message_includes :: "jsstring jsfield \<Rightarrow> jsstring \<Rightarrow> bool" where
  "message_includes m p = (case m of Val s \<Rightarrow> s \<noteq> [] \<and> js_includes s p | _ \<Rightarrow> False)"

text \<open>The test of the \<open>catch\<close> block for an error of the network class.\<close>

definition network_class :: "js_error \<Rightarrow> bool" where
  "network_class err =
     (message_includes (err_message err) (ascii ''Network'')
      \<or> message_includes (err_message err) (ascii ''Failed to fetch'')
      \<or> message_includes (err_message err) (ascii ''HTTP error''))"

text \<open>The \<open>catch\<close> block on the last attempt.\<close>

definition last_attempt :: "js_error \<Rightarrow> js_error + FoodProduct list" where
  "last_attempt err =
     (if message_includes (err_message err) (ascii ''404'') then Inr []
      else if network_class err then Inl (Error (Val msg_cannot_connect))
      else Inl (Error (Val (str_or (err_message err) msg_generic))))"

text \<open>
  What a call leaves: what it returns or throws, how many times it called the endpoint,
  the delays it waited in order, and the cache table.
\<close>

record search_result =
  outcome :: "js_error + FoodProduct list"
  attempts :: nat
  waits :: "rat list"
  cache :: "cache_row list"

function search_loop ::
  "search_env \<Rightarrow> store_outcome list \<Rightarrow> cache_row list \<Rightarrow> nat \<Rightarrow> rat list \<Rightarrow> search_result" where
  "search_loop env fs rows attempt ws =
     (if attempt \<le> maxRetries then
        (case try_attempt env fs rows attempt of
           Returned products rows' \<Rightarrow>
             \<lparr> outcome = Inr products, attempts = attempt, waits = ws, cache = rows' \<rparr>
         | Thrown err \<Rightarrow>
             if attempt = maxRetries then
               \<lparr> outcome = last_attempt err, attempts = attempt, waits = ws, cache = rows \<rparr>
             else
               (let jitter = math_random env attempt * 200;
                    waitTime = baseDelay * 2 ^ (attempt - 1) + jitter
                in search_loop env fs rows (attempt + 1) (ws @ [waitTime])))
      else \<lparr> outcome = Inr [], attempts = attempt - 1, waits = ws, cache = rows \<rparr>)"
  by pat_completeness auto
termination
  by (relation "measure (\<lambda>(env, fs, rows, attempt, ws). maxRetries + 1 - attempt)") auto

declare search_loop.simps [simp del]

definition searchProductsByName ::
  "search_env \<Rightarrow> store_outcome list \<Rightarrow> cache_row list \<Rightarrow> search_result" where
  "searchProductsByName env fs rows = search_loop env fs rows 1 []"

section \<open>addFoodToMeal\<close>

text \<open>
  The outside of one call: \<open>Date.now()\<close>, \<open>String.prototype.toLowerCase\<close>, and what
  the two inserts do.
\<close>

record meal_env =
  meal_now :: int
  toLowerCase :: "jsstring \<Rightarrow> jsstring"
  cache_insert :: store_outcome
  meal_insert :: store_outcome

definition insert_meal :: "meal_env \<Rightarrow> db \<Rightarrow> meal_row \<Rightarrow> (js_error + unit) \<times> db" where
  "insert_meal env d row =
     (case meal_insert env of
        Succeeds \<Rightarrow> (Inr (), d\<lparr>maltidsinlagg := maltidsinlagg d @ [row]\<rparr>)
      | ReturnsError e \<Rightarrow> (Inl e, d)
      | Throws e \<Rightarrow> (Inl e, d))"

definition addFoodToMeal ::
  "meal_env \<Rightarrow> db \<Rightarrow> jsstring \<Rightarrow> FoodProduct \<Rightarrow> jsnum \<Rightarrow> jsstring option \<Rightarrow>
   (js_error + unit) \<times> db" where
  "addFoodToMeal env d logId product quantityGrams mealType =
     (let quantity = (if js_gt0 quantityGrams then quantityGrams else Num 100);
          mealType' = (case mealType of None \<Rightarrow> ascii ''frukost'' | Some m \<Rightarrow> m);
          entry = (\<lambda>oid. \<lparr> daglig_logg_id = logId,
                           maltidstyp = toLowerCase env mealType',
                           meal_off_id = oid,
                           custom_namn = name product,
                           antal_gram = quantity \<rparr>)
      in if \<not> truthy_str (off_id product) then
           (let oid = Val (generateTempId (meal_now env) (name product) (Val (brand product)));
                row = \<lparr> cache_off_id = oid,
                        produktnamn = name product,
                        varumarke = field_or (Val (brand product)) Null,
                        energi_kcal_100g = num_or (Val (calories product)) (Num 0),
                        protein_100g = num_or (Val (protein product)) (Num 0),
                        kolhydrater_100g = num_or (Val (carbs product)) (Num 0),
                        fett_100g = num_or (Val (fat product)) (Num 0),
                        bild_url = field_or (Val (image_url product)) Null \<rparr>
            in case cache_insert env of
                 Throws e \<Rightarrow> (Inl e, d)
               | ReturnsError e \<Rightarrow> insert_meal env d (entry oid)
               | Succeeds \<Rightarrow>
                   insert_meal env (d\<lparr>livsmedelskache := livsmedelskache d @ [row]\<rparr>) (entry oid))
         else insert_meal env d (entry (off_id product)))"

section \<open>The normalisation postcondition\<close>

text \<open>
  What the specification asks of a returned record, against the raw object it comes
  from. A property is absent when it is missing or \<open>null\<close>; an identifier is present
  when it is a non-empty string.
\<close>

definition absent :: "'a jsfield \<Rightarrow> bool" where
  "absent f = (case f of Val v \<Rightarrow> False | _ \<Rightarrow> True)"

definition normalized_from :: "int \<Rightarrow> raw_product \<Rightarrow> FoodProduct \<Rightarrow> bool" where
  "normalized_from now item p =
     ((absent (raw_calories item) \<longrightarrow> calories p = Num 0)
      \<and> (absent (raw_protein item) \<longrightarrow> protein p = Num 0)
      \<and> (absent (raw_fat item) \<longrightarrow> fat p = Num 0)
      \<and> (absent (raw_carbs item) \<longrightarrow> carbs p = Num 0)
      \<and> (absent (raw_brand item) \<longrightarrow> brand p = [])
      \<and> (absent (raw_image_url item) \<longrightarrow> image_url p = [])
      \<and> truthy_str (off_id p)
      \<and> off_id p =
          (if truthy_str (raw_off_id item) then raw_off_id item
           else if truthy_str (raw_barcode item) then raw_barcode item
           else Val (generateTempId now (raw_name item) (raw_brand item))))"

section \<open>Example inputs\<close>

text \<open>The record \<open>{name: "Banana", calories: 89}\<close>.\<close>

definition banana :: raw_product where
  "banana =
     \<lparr> raw_name = Val (ascii ''Banana''), raw_brand = Undefined,
       raw_calories = Val (Num 89), raw_protein = Undefined, raw_fat = Undefined,
       raw_carbs = Undefined, raw_sugar = Undefined, raw_image_url = Undefined,
       raw_off_id = Undefined, raw_barcode = Undefined \<rparr>"

text \<open>An endpoint that answers every attempt with that one record.\<close>

definition banana_env :: search_env where
  "banana_env =
     \<lparr> invoke = (\<lambda>n. Resolves (Items [banana]) None),
       math_random = (\<lambda>n. 0),
       date_now = (\<lambda>i. 1700000000000) \<rparr>"

text \<open>A record with a barcode.\<close>

definition oats :: raw_product where
  "oats =
     \<lparr> raw_name = Val (ascii ''Oats''), raw_brand = Val (ascii ''Axa''),
       raw_calories = Val (Num 370), raw_protein = Val (Num 13), raw_fat = Val (Num 7),
       raw_carbs = Val (Num 59), raw_sugar = Undefined, raw_image_url = Undefined,
       raw_off_id = Undefined, raw_barcode = Val (ascii ''7310130006883'') \<rparr>"


text \<open>An endpoint that times out twice and answers the third attempt with status 404.\<close>

definition late_404_env :: search_env where
  "late_404_env =
     \<lparr> invoke = (\<lambda>n. if n = 3
                      then Resolves NotArray
                             (Some \<lparr> status = Some 404, message = ascii ''Not Found'' \<rparr>)
                      else Rejects (Error (Val (ascii ''timeout'')))),
       math_random = (\<lambda>n. 1 / 4),
       date_now = (\<lambda>i. 1700000000000) \<rparr>"

text \<open>
  An endpoint that answers every attempt with status 500 and a message that happens to
  hold the digits 404.
\<close>

definition upstream_error :: fn_error where
  "upstream_error = \<lparr> status = Some 500, message = ascii ''upstream returned 404'' \<rparr>"

definition upstream_env :: search_env where
  "upstream_env =
     \<lparr> invoke = (\<lambda>n. Resolves NotArray (Some upstream_error)),
       math_random = (\<lambda>n. 0),
       date_now = (\<lambda>i. 1700000000000) \<rparr>"

text \<open>An endpoint that answers every attempt with status 500 and a plain message.\<close>

definition server_error_env :: search_env where
  "server_error_env =
     \<lparr> invoke = (\<lambda>n. Resolves NotArray
                        (Some \<lparr> status = Some 500, message = ascii ''boom'' \<rparr>)),
       math_random = (\<lambda>n. 0),
       date_now = (\<lambda>i. 1700000000000) \<rparr>"

text \<open>An endpoint that answers every attempt with the record that has a barcode.\<close>

definition oats_env :: search_env where
  "oats_env =
     \<lparr> invoke = (\<lambda>n. Resolves (Items [oats]) None),
       math_random = (\<lambda>n. 0),
       date_now = (\<lambda>i. 1700000000000) \<rparr>"

text \<open>A product as a search returns it, and what a call of \<open>addFoodToMeal\<close> needs.\<close>

definition banana_product :: FoodProduct where
  "banana_product =
     \<lparr> name = Val (ascii ''Banana''), brand = [], calories = Num 89, protein = Num 0,
       fat = Num 0, carbs = Num 0, sugar = Undefined, image_url = [],
       off_id = Val (ascii ''temp_1209'') \<rparr>"

definition ascii_lower :: "jsstring \<Rightarrow> jsstring" where
  "ascii_lower s = map (\<lambda>c. if 65 \<le> c \<and> c \<le> 90 then c + 32 else c) s"

definition working_meal_env :: meal_env where
  "working_meal_env =
     \<lparr> meal_now = 1700000000000, toLowerCase = ascii_lower,
       cache_insert = Succeeds, meal_insert = Succeeds \<rparr>"

definition empty_db :: db where
  "empty_db = \<lparr> livsmedelskache = [], maltidsinlagg = [] \<rparr>"

section \<open>Strings and numbers\<close>

lemmas js_eval = ascii_def truthy_str_def truthy_num_def str_or_def num_or_def field_or_def
  template_def canonical_id_def message_includes_def network_class_def

lemma foldl_char_codes: "foldl (\<lambda>acc char. acc + unat char) a s = a + char_code_sum s"
  by (induction s arbitrary: a) (simp_all add: char_code_sum_def)

lemma char_code_sum_append: "char_code_sum (s @ t) = char_code_sum s + char_code_sum t"
  by (simp add: char_code_sum_def)

lemma unat_digit: "d < 10 \<Longrightarrow> unat (digit d) = 48 + d"
  unfolding digit_def by (simp only: unat_of_nat) simp

lemma digits_value_snoc: "digits_value (s @ [c]) = 10 * digits_value s + (unat c - 48)"
  by (simp add: digits_value_def)

text \<open>\<open>digits\<close> writes the decimal representation: reading it back gives the number.\<close>

lemma digits_value_digits: "digits_value (digits n) = n"
proof (induction n rule: digits.induct)
  case (1 n)
  show ?case
  proof (cases "n < 10")
    case True
    then show ?thesis by (subst digits.simps) (simp add: digits_value_def unat_digit)
  next
    case False
    then have "digits_value (digits (n div 10)) = n div 10" using 1 by simp
    with False show ?thesis
      by (subst digits.simps) (simp add: digits_value_snoc unat_digit)
  qed
qed

lemma digits_inj: "digits a = digits b \<Longrightarrow> a = b"
proof -
  assume "digits a = digits b"
  then have "digits_value (digits a) = digits_value (digits b)" by simp
  then show "a = b" by (simp only: digits_value_digits)
qed

section \<open>The identifier synthesizer\<close>

lemma generateTempId_sum:
  "generateTempId now nm br =
     ascii ''temp_'' @ digits (char_code_sum (template nm @ str_or br [] @ int_to_string now))"
  by (simp add: generateTempId_def foldl_char_codes)

lemma generateTempId_nonempty: "generateTempId now nm br \<noteq> []"
  by (simp add: generateTempId_def ascii_def Let_def)

text \<open>
  Claim C9. For every name that is a text and every brand, \<open>generateTempId\<close> returns
  the text \<open>temp_\<close> followed by the decimal digits of the sum of the character codes
  of name, brand and the timestamp written one after the other, where a brand that is
  missing, \<open>null\<close> or empty counts as the empty text. The function is total: it has no
  error result. The second part reads the digits after the prefix back as that sum.
\<close>

theorem generateTempId_form:
  "generateTempId now (Val nm) br =
     ascii ''temp_'' @
     digits (char_code_sum (nm @ (case br of Val b \<Rightarrow> b | _ \<Rightarrow> []) @ int_to_string now))
   \<and> digits_value (drop 5 (generateTempId now (Val nm) br)) =
     char_code_sum (nm @ (case br of Val b \<Rightarrow> b | _ \<Rightarrow> []) @ int_to_string now)"
proof -
  have b: "str_or br [] = (case br of Val b \<Rightarrow> b | _ \<Rightarrow> [])"
    by (simp add: str_or_def split: jsfield.splits)
  have l: "length (ascii ''temp_'') = 5" by (simp add: ascii_def)
  show ?thesis
    by (simp add: generateTempId_sum b l template_def digits_value_digits)
qed

text \<open>Claim C9 at the record \<open>Banana\<close> without a brand.\<close>

theorem generateTempId_form_witness:
  "generateTempId 1700000000000 (Val (ascii ''Banana'')) Undefined = ascii ''temp_1209''"
  using generateTempId_form [of 1700000000000 "ascii ''Banana''" Undefined]
  by (simp add: char_code_sum_def int_to_string_def digits.simps digit_def ascii_def)

text \<open>
  Claim C8 as stated fails: in the same millisecond the names \<open>ab\<close> and \<open>ba\<close>, both
  with an empty brand, are distinct inputs and get the same identifier.
\<close>

theorem anagram_names_collide:
  "template (Val (ascii ''ab'')) @ str_or (Val []) [] \<noteq> template (Val (ascii ''ba'')) @ str_or (Val []) []
   \<and> generateTempId 1700000000000 (Val (ascii ''ab'')) (Val [])
       = generateTempId 1700000000000 (Val (ascii ''ba'')) (Val [])"
  by (simp add: generateTempId_def ascii_def template_def str_or_def)

text \<open>
  Claim C8, amended. Two identifiers synthesized with the same timestamp are equal
  exactly when the sums of the character codes of name followed by brand are equal.
  So inputs with different sums get different identifiers, and inputs with equal sums
  collide, whether or not they are the same text.
\<close>

theorem temp_id_equal_iff_checksum_equal:
  "generateTempId now n1 b1 = generateTempId now n2 b2 \<longleftrightarrow>
   char_code_sum (template n1 @ str_or b1 []) = char_code_sum (template n2 @ str_or b2 [])"
proof -
  have "generateTempId now n1 b1 = generateTempId now n2 b2 \<longleftrightarrow>
     char_code_sum (template n1 @ str_or b1 [] @ int_to_string now) =
     char_code_sum (template n2 @ str_or b2 [] @ int_to_string now)"
    using digits_inj by (auto simp add: generateTempId_sum)
  then show ?thesis by (simp add: char_code_sum_append)
qed

text \<open>Claim C8, amended, at two inputs that split the same letters differently.\<close>

theorem temp_id_equal_iff_checksum_equal_witness:
  "generateTempId 0 (Val (ascii ''abc'')) Undefined
     = generateTempId 0 (Val (ascii ''c'')) (Val (ascii ''ba''))"
  using temp_id_equal_iff_checksum_equal
    [of 0 "Val (ascii ''abc'')" Undefined "Val (ascii ''c'')" "Val (ascii ''ba'')"]
  by (simp add: char_code_sum_def js_eval)

section \<open>The cache writer\<close>


lemma cache_product_skip:
  "\<not> truthy_str (raw_off_id p) \<and> \<not> truthy_str (raw_barcode p) \<Longrightarrow>
   cache_product fs rows p = (Inr (), fs, rows)"
  by (simp add: cache_product_def)

lemma cache_loop_filter:
  "cache_loop fs rows products =
   cache_loop fs rows
     (filter (\<lambda>p. truthy_str (raw_off_id p) \<or> truthy_str (raw_barcode p)) products)"
  by (induction products arbitrary: fs rows)
    (auto simp add: cache_product_skip split: prod.splits sum.splits)




















text \<open>
  Claim C1, amended. \<open>cacheSearchResults\<close> passes over every record that has neither
  an \<open>off_id\<close> nor a barcode: the table it leaves is the one it leaves for the records
  with an identifier alone, and when no record has an identifier the table is unchanged,
  whatever the requests do. No identifier is synthesized on this path.
\<close>

theorem cache_skips_records_without_identifier:
  "cacheSearchResults fs rows products =
     cacheSearchResults fs rows
       (filter (\<lambda>p. truthy_str (raw_off_id p) \<or> truthy_str (raw_barcode p)) products)
   \<and> ((\<forall>p \<in> set products. \<not> truthy_str (raw_off_id p) \<and> \<not> truthy_str (raw_barcode p))
        \<longrightarrow> cacheSearchResults fs rows products = rows)"
proof -
  have f: "cache_loop fs rows products =
     cache_loop fs rows
       (filter (\<lambda>p. truthy_str (raw_off_id p) \<or> truthy_str (raw_barcode p)) products)"
    by (rule cache_loop_filter)
  have "(\<forall>p \<in> set products. \<not> truthy_str (raw_off_id p) \<and> \<not> truthy_str (raw_barcode p))
     \<Longrightarrow> filter (\<lambda>p. truthy_str (raw_off_id p) \<or> truthy_str (raw_barcode p)) products = []"
    by (simp add: filter_empty_conv)
  with f show ?thesis by (auto simp add: cacheSearchResults_def)
qed

text \<open>
  Claim C1, amended, at a table with one row and two records without identifier, with a
  store whose next request would reject.
\<close>

theorem cache_skips_records_without_identifier_witness:
  "\<not> truthy_str (raw_off_id banana) \<and> \<not> truthy_str (raw_barcode banana)
   \<and> cacheSearchResults [Throws (Error Undefined)] [new_cache_row (canonical_id oats) oats]
         [banana, banana]
       = [new_cache_row (canonical_id oats) oats]"
  using cache_skips_records_without_identifier
    [of "[Throws (Error Undefined)]" "[new_cache_row (canonical_id oats) oats]" "[banana, banana]"]
  by (simp add: banana_def truthy_str_def cacheSearchResults_def)

section \<open>The retry loop\<close>

text \<open>The three iterations of the loop, one at a time.\<close>

lemma search_loop_3:
  "search_loop env fs rows 3 ws =
     (case try_attempt env fs rows 3 of
        Returned ps r \<Rightarrow> \<lparr> outcome = Inr ps, attempts = 3, waits = ws, cache = r \<rparr>
      | Thrown e \<Rightarrow> \<lparr> outcome = last_attempt e, attempts = 3, waits = ws, cache = rows \<rparr>)"
  by (subst search_loop.simps)
    (simp add: maxRetries_def del: One_nat_def split: attempt_result.splits)

lemma search_loop_2:
  "search_loop env fs rows 2 ws =
     (case try_attempt env fs rows 2 of
        Returned ps r \<Rightarrow> \<lparr> outcome = Inr ps, attempts = 2, waits = ws, cache = r \<rparr>
      | Thrown e \<Rightarrow> search_loop env fs rows 3 (ws @ [baseDelay * 2 + math_random env 2 * 200]))"
  by (subst search_loop.simps)
    (simp add: maxRetries_def del: One_nat_def split: attempt_result.splits)

lemma search_loop_1:
  "search_loop env fs rows 1 ws =
     (case try_attempt env fs rows 1 of
        Returned ps r \<Rightarrow> \<lparr> outcome = Inr ps, attempts = 1, waits = ws, cache = r \<rparr>
      | Thrown e \<Rightarrow> search_loop env fs rows 2 (ws @ [baseDelay + math_random env 1 * 200]))"
  by (subst search_loop.simps)
    (simp add: maxRetries_def del: One_nat_def split: attempt_result.splits)

lemma search_unrolled:
  "searchProductsByName env fs rows =
     (case try_attempt env fs rows 1 of
        Returned ps r \<Rightarrow> \<lparr> outcome = Inr ps, attempts = 1, waits = [], cache = r \<rparr>
      | Thrown e1 \<Rightarrow>
         (case try_attempt env fs rows 2 of
            Returned ps r \<Rightarrow>
              \<lparr> outcome = Inr ps, attempts = 2,
                waits = [baseDelay + math_random env 1 * 200], cache = r \<rparr>
          | Thrown e2 \<Rightarrow>
             (case try_attempt env fs rows 3 of
                Returned ps r \<Rightarrow>
                  \<lparr> outcome = Inr ps, attempts = 3,
                    waits = [baseDelay + math_random env 1 * 200,
                             baseDelay * 2 + math_random env 2 * 200], cache = r \<rparr>
              | Thrown e3 \<Rightarrow>
                  \<lparr> outcome = last_attempt e3, attempts = 3,
                    waits = [baseDelay + math_random env 1 * 200,
                             baseDelay * 2 + math_random env 2 * 200], cache = rows \<rparr>)))"
  by (simp add: searchProductsByName_def search_loop_1 search_loop_2 search_loop_3
      del: One_nat_def split: attempt_result.splits)

text \<open>When the body of the \<open>try\<close> block throws, and what it throws.\<close>

lemma try_attempt_Thrown_iff:
  "try_attempt env fs rows a = Thrown err \<longleftrightarrow>
     invoke env a = Rejects err
     \<or> (\<exists>d e. invoke env a = Resolves d (Some e) \<and> status e \<noteq> Some 404
            \<and> err = Error (Val (msg_search_failed @ message e)))
     \<or> (invoke env a = Resolves NotArray None \<and> err = Error (Val msg_invalid_response))"
  by (auto simp add: try_attempt_def Let_def
      split: invoke_result.splits option.splits payload.splits)

lemma try_attempt_Returned:
  "try_attempt env fs rows a = Returned ps r \<Longrightarrow>
   ps = [] \<or> (\<exists>items. invoke env a = Resolves (Items items) None
                \<and> ps = map (\<lambda>(i, item). normalize (date_now env i) item)
                         (zip [0..<length items] items))"
  by (auto simp add: try_attempt_def Let_def
      split: invoke_result.splits option.splits payload.splits if_splits)

lemma try_attempt_faults:
  "(case try_attempt env fs rows a of Returned ps r \<Rightarrow> Inr ps | Thrown e \<Rightarrow> Inl e) =
   (case try_attempt env gs rows' a of Returned ps r \<Rightarrow> Inr ps | Thrown e \<Rightarrow> Inl e)"
  by (simp add: try_attempt_def Let_def split: invoke_result.splits option.splits payload.splits)

lemma last_attempt_Inl:
  "last_attempt err = Inl e \<Longrightarrow>
   \<not> message_includes (err_message err) (ascii ''404'')
   \<and> e = (if network_class err then Error (Val msg_cannot_connect)
          else Error (Val (str_or (err_message err) msg_generic)))"
  by (auto simp add: last_attempt_def split: if_splits)

lemma last_attempt_Inr: "last_attempt e = Inr ps \<Longrightarrow> ps = []"
  by (auto simp add: last_attempt_def split: if_splits)

lemma search_Inr:
  assumes "outcome (searchProductsByName env fs rows) = Inr ps"
  shows "ps = [] \<or>
    (\<exists>a r. 1 \<le> a \<and> a \<le> maxRetries \<and> try_attempt env fs rows a = Returned ps r)"
proof -
  have b: "(1::nat) \<le> 1 \<and> (1::nat) \<le> maxRetries" "(1::nat) \<le> 2 \<and> (2::nat) \<le> maxRetries"
    "(1::nat) \<le> 3 \<and> (3::nat) \<le> maxRetries"
    by (simp_all add: maxRetries_def)
  show ?thesis
  proof (cases "try_attempt env fs rows 1")
    case (Returned ps1 r1)
    then have "ps1 = ps" using assms by (simp add: search_unrolled del: One_nat_def)
    then show ?thesis using Returned b(1) by blast
  next
    case t1: (Thrown e1)
    show ?thesis
    proof (cases "try_attempt env fs rows 2")
      case (Returned ps2 r2)
      then have "ps2 = ps" using assms t1 by (simp add: search_unrolled del: One_nat_def)
      then show ?thesis using Returned b(2) by blast
    next
      case t2: (Thrown e2)
      show ?thesis
      proof (cases "try_attempt env fs rows 3")
        case (Returned ps3 r3)
        then have "ps3 = ps" using assms t1 t2 by (simp add: search_unrolled del: One_nat_def)
        then show ?thesis using Returned b(3) by blast
      next
        case (Thrown e3)
        then have "last_attempt e3 = Inr ps"
          using assms t1 t2 by (simp add: search_unrolled del: One_nat_def)
        then show ?thesis using last_attempt_Inr by blast
      qed
    qed
  qed
qed

text \<open>An error leaves a call only from the \<open>catch\<close> block of the third attempt.\<close>

lemma search_Inl:
  assumes "outcome (searchProductsByName env fs rows) = Inl e"
  shows "attempts (searchProductsByName env fs rows) = 3
     \<and> (\<exists>err. try_attempt env fs rows 3 = Thrown err \<and> last_attempt err = Inl e)"
  using assms
  by (auto simp add: search_unrolled simp del: One_nat_def split: attempt_result.splits)

text \<open>The normalisation of a raw object meets the postcondition.\<close>

lemma normalize_post: "normalized_from now item (normalize now item)"
  by (auto simp add: normalized_from_def normalize_def absent_def str_or_def num_or_def
      truthy_num_def canonical_id_def field_or_def truthy_str_def generateTempId_nonempty
      split: jsfield.splits)

text \<open>Three runs, evaluated.\<close>

lemma banana_run:
  "searchProductsByName banana_env [] [] =
     \<lparr> outcome = Inr [\<lparr> name = Val (ascii ''Banana''), brand = [], calories = Num 89,
                        protein = Num 0, fat = Num 0, carbs = Num 0, sugar = Undefined,
                        image_url = [], off_id = Val (ascii ''temp_1209'') \<rparr>],
       attempts = 1, waits = [], cache = [] \<rparr>"
  by (simp add: search_unrolled try_attempt_def banana_env_def banana_def cacheSearchResults_def
      cache_product_def normalize_def generateTempId_def int_to_string_def digits.simps digit_def
      js_eval del: One_nat_def)


lemma oats_run:
  "searchProductsByName oats_env [] [] =
     \<lparr> outcome = Inr [\<lparr> name = Val (ascii ''Oats''), brand = ascii ''Axa'', calories = Num 370,
                        protein = Num 13, fat = Num 7, carbs = Num 59, sugar = Undefined,
                        image_url = [], off_id = Val (ascii ''7310130006883'') \<rparr>],
       attempts = 1, waits = [],
       cache = [new_cache_row (Val (ascii ''7310130006883'')) oats] \<rparr>"
  by (simp add: search_unrolled try_attempt_def oats_env_def oats_def cacheSearchResults_def
      cache_product_def maybeSingle_def new_cache_row_def normalize_def js_eval del: One_nat_def)

text \<open>
  Claim C1 as stated fails: the endpoint answers the first attempt with the one record
  \<open>{name: "Banana", calories: 89}\<close>, which has no \<open>off_id\<close> and no barcode; the search
  starts on an empty cache table and leaves it empty.
\<close>

theorem banana_search_inserts_no_row:
  "\<not> truthy_str (raw_off_id banana) \<and> \<not> truthy_str (raw_barcode banana)
   \<and> invoke banana_env 1 = Resolves (Items [banana]) None
   \<and> cache (searchProductsByName banana_env [] []) = []"
  by (simp add: banana_run) (simp add: banana_def banana_env_def truthy_str_def)



text \<open>
  Claim C3. Let attempt \<open>a\<close> be the first, second or third, let every attempt before
  it have thrown, and let the endpoint answer attempt \<open>a\<close> with an error of status 404.
  Then the call returns the empty sequence and throws nothing, attempt \<open>a\<close> is its last
  attempt, it has waited only after the attempts before \<open>a\<close>, and the cache table is
  untouched.
\<close>

theorem not_found_returns_empty:
  assumes a: "1 \<le> a \<and> a \<le> maxRetries"
    and earlier: "\<forall>k. 1 \<le> k \<and> k < a \<longrightarrow> (\<exists>e. try_attempt env fs rows k = Thrown e)"
    and resp: "invoke env a = Resolves d (Some e)"
    and nf: "status e = Some 404"
  shows "outcome (searchProductsByName env fs rows) = Inr []
    \<and> attempts (searchProductsByName env fs rows) = a
    \<and> length (waits (searchProductsByName env fs rows)) = a - 1
    \<and> cache (searchProductsByName env fs rows) = rows"
proof -
  have ret: "try_attempt env fs rows a = Returned [] rows"
    using resp nf by (simp add: try_attempt_def)
  have "a = 1 \<or> a = 2 \<or> a = 3" using a unfolding maxRetries_def by arith
  then show ?thesis
  proof (elim disjE)
    assume "a = 1"
    then show ?thesis using ret by (simp add: search_unrolled del: One_nat_def)
  next
    assume a2: "a = 2"
    have "(1::nat) \<le> 1 \<and> (1::nat) < 2" by simp
    then obtain e1 where "try_attempt env fs rows 1 = Thrown e1"
      using earlier a2 by blast
    then show ?thesis using ret a2 by (simp add: search_unrolled del: One_nat_def)
  next
    assume a3: "a = 3"
    have "(1::nat) \<le> 1 \<and> (1::nat) < 3" by simp
    then obtain e1 where e1: "try_attempt env fs rows 1 = Thrown e1"
      using earlier a3 by blast
    have "(1::nat) \<le> 2 \<and> (2::nat) < 3" by simp
    then obtain e2 where e2: "try_attempt env fs rows 2 = Thrown e2"
      using earlier a3 by blast
    show ?thesis using ret a3 e1 e2 by (simp add: search_unrolled del: One_nat_def)
  qed
qed

text \<open>
  Claim C3 at an endpoint that times out twice and answers the third attempt with
  status 404.
\<close>

theorem not_found_returns_empty_witness:
  "outcome (searchProductsByName late_404_env [] []) = Inr []
   \<and> attempts (searchProductsByName late_404_env [] []) = 3
   \<and> length (waits (searchProductsByName late_404_env [] [])) = 2"
proof -
  have a: "1 \<le> (3::nat) \<and> (3::nat) \<le> maxRetries" by (simp add: maxRetries_def)
  have e: "\<forall>k. 1 \<le> k \<and> k < 3 \<longrightarrow> (\<exists>e. try_attempt late_404_env [] [] k = Thrown e)"
    by (simp add: try_attempt_def late_404_env_def)
  have r: "invoke late_404_env 3 =
      Resolves NotArray (Some \<lparr> status = Some 404, message = ascii ''Not Found'' \<rparr>)"
    by (simp add: late_404_env_def)
  have s: "status \<lparr> status = Some 404, message = ascii ''Not Found'' \<rparr> = Some 404" by simp
  show ?thesis using not_found_returns_empty [OF a e r s] by simp
qed

text \<open>
  Claim C4 as stated fails: the endpoint answers all three attempts with an error of
  status 500 whose message holds the text 404; the third attempt fails with an error
  that is not of status 404, and the call throws nothing and returns the empty sequence.
\<close>

theorem status_500_with_404_text_returns_empty:
  "status upstream_error = Some 500
   \<and> invoke upstream_env 3 = Resolves NotArray (Some upstream_error)
   \<and> attempts (searchProductsByName upstream_env [] []) = 3
   \<and> outcome (searchProductsByName upstream_env [] []) = Inr []"
  by (simp add: search_unrolled try_attempt_def upstream_env_def upstream_error_def
      last_attempt_def msg_search_failed_def js_eval del: One_nat_def)

text \<open>
  Claim C4, amended. When all three attempts throw, the call ends on the third attempt,
  and the message of the error caught there decides: if it holds the text 404 the call
  returns the empty sequence; if not, and it holds \<open>Network\<close>, \<open>Failed to fetch\<close>
  or \<open>HTTP error\<close>, the call throws the error "cannot reach the server"; otherwise
  it throws an error with the caught message, or with the generic text when the caught
  message is empty or missing. Nothing else is thrown: an error that leaves a call is
  one of these two, thrown on the third attempt for a caught message without the text
  404.
\<close>

theorem last_attempt_error_classes:
  "(try_attempt env fs rows 1 = Thrown err1 \<and> try_attempt env fs rows 2 = Thrown err2
      \<and> try_attempt env fs rows 3 = Thrown err \<longrightarrow>
      attempts (searchProductsByName env fs rows) = 3
      \<and> (message_includes (err_message err) (ascii ''404'') \<longrightarrow>
            outcome (searchProductsByName env fs rows) = Inr [])
      \<and> (\<not> message_includes (err_message err) (ascii ''404'') \<and> network_class err \<longrightarrow>
            outcome (searchProductsByName env fs rows) = Inl (Error (Val msg_cannot_connect)))
      \<and> (\<not> message_includes (err_message err) (ascii ''404'') \<and> \<not> network_class err \<longrightarrow>
            outcome (searchProductsByName env fs rows)
              = Inl (Error (Val (str_or (err_message err) msg_generic)))))
   \<and> (outcome (searchProductsByName env fs rows) = Inl e \<longrightarrow>
        attempts (searchProductsByName env fs rows) = 3
        \<and> (\<exists>caught. try_attempt env fs rows 3 = Thrown caught
              \<and> \<not> message_includes (err_message caught) (ascii ''404'')
              \<and> e = (if network_class caught then Error (Val msg_cannot_connect)
                     else Error (Val (str_or (err_message caught) msg_generic)))))"
proof -
  have one: "try_attempt env fs rows 1 = Thrown err1 \<and> try_attempt env fs rows 2 = Thrown err2
      \<and> try_attempt env fs rows 3 = Thrown err \<longrightarrow>
      attempts (searchProductsByName env fs rows) = 3
      \<and> (message_includes (err_message err) (ascii ''404'') \<longrightarrow>
            outcome (searchProductsByName env fs rows) = Inr [])
      \<and> (\<not> message_includes (err_message err) (ascii ''404'') \<and> network_class err \<longrightarrow>
            outcome (searchProductsByName env fs rows) = Inl (Error (Val msg_cannot_connect)))
      \<and> (\<not> message_includes (err_message err) (ascii ''404'') \<and> \<not> network_class err \<longrightarrow>
            outcome (searchProductsByName env fs rows)
              = Inl (Error (Val (str_or (err_message err) msg_generic))))"
    by (simp add: search_unrolled last_attempt_def del: One_nat_def)
  have two: "outcome (searchProductsByName env fs rows) = Inl e \<longrightarrow>
        attempts (searchProductsByName env fs rows) = 3
        \<and> (\<exists>caught. try_attempt env fs rows 3 = Thrown caught
              \<and> \<not> message_includes (err_message caught) (ascii ''404'')
              \<and> e = (if network_class caught then Error (Val msg_cannot_connect)
                     else Error (Val (str_or (err_message caught) msg_generic))))"
  proof
    assume o: "outcome (searchProductsByName env fs rows) = Inl e"
    then obtain caught where c: "try_attempt env fs rows 3 = Thrown caught"
      and l: "last_attempt caught = Inl e"
      using search_Inl by blast
    show "attempts (searchProductsByName env fs rows) = 3
        \<and> (\<exists>caught. try_attempt env fs rows 3 = Thrown caught
              \<and> \<not> message_includes (err_message caught) (ascii ''404'')
              \<and> e = (if network_class caught then Error (Val msg_cannot_connect)
                     else Error (Val (str_or (err_message caught) msg_generic))))"
      using search_Inl [OF o] c last_attempt_Inl [OF l] by blast
  qed
  show ?thesis using one two by blast
qed

text \<open>
  Claim C4, amended, at an endpoint that answers every attempt with status 500 and the
  message \<open>boom\<close>: the call throws the error that carries this message.
\<close>

theorem last_attempt_error_classes_witness:
  "outcome (searchProductsByName server_error_env [] [])
     = Inl (Error (Val (msg_search_failed @ ascii ''boom'')))"
proof -
  have t: "\<And>k. try_attempt server_error_env [] [] k
      = Thrown (Error (Val (msg_search_failed @ ascii ''boom'')))"
    by (simp add: try_attempt_def server_error_env_def)
  have n: "\<not> message_includes (err_message (Error (Val (msg_search_failed @ ascii ''boom''))))
          (ascii ''404'')
    \<and> \<not> network_class (Error (Val (msg_search_failed @ ascii ''boom'')))"
    by (simp add: msg_search_failed_def js_eval)
  have s: "str_or (err_message (Error (Val (msg_search_failed @ ascii ''boom'')))) msg_generic
     = msg_search_failed @ ascii ''boom''"
    by (simp add: str_or_def msg_search_failed_def)
  have "outcome (searchProductsByName server_error_env [] [])
      = Inl (Error (Val (str_or (err_message (Error (Val (msg_search_failed @ ascii ''boom''))))
                          msg_generic)))"
    using last_attempt_error_classes
      [of server_error_env "[]" "[]" "Error (Val (msg_search_failed @ ascii ''boom''))"
          "Error (Val (msg_search_failed @ ascii ''boom''))"
          "Error (Val (msg_search_failed @ ascii ''boom''))"]
      t n
    by blast
  then show ?thesis by (simp only: s)
qed

text \<open>
  Claim C5. What a call returns or throws, the number of its attempts and its waits are
  the same whatever the requests to the cache store do (resolve with an error or
  reject, in any order) as when all of them succeed.
\<close>

theorem cache_failures_contained:
  "outcome (searchProductsByName env fs rows) = outcome (searchProductsByName env [] rows)
   \<and> attempts (searchProductsByName env fs rows) = attempts (searchProductsByName env [] rows)
   \<and> waits (searchProductsByName env fs rows) = waits (searchProductsByName env [] rows)"
proof -
  have t: "\<And>a. (case try_attempt env fs rows a of Returned ps r \<Rightarrow> Inr ps | Thrown e \<Rightarrow> Inl e) =
   (case try_attempt env [] rows a of Returned ps r \<Rightarrow> Inr ps | Thrown e \<Rightarrow> Inl e)"
    by (rule try_attempt_faults)
  show ?thesis
    using t [of 1] t [of 2] t [of 3]
    by (auto simp add: search_unrolled simp del: One_nat_def split: attempt_result.splits)
qed

text \<open>
  Claim C5 at a search that finds one record with a barcode while the lookup in the
  cache store rejects: the same record is returned, and no row is written.
\<close>

theorem cache_failures_contained_witness:
  "outcome (searchProductsByName oats_env [Throws (Error Undefined)] []) =
     Inr [\<lparr> name = Val (ascii ''Oats''), brand = ascii ''Axa'', calories = Num 370,
            protein = Num 13, fat = Num 7, carbs = Num 59, sugar = Undefined,
            image_url = [], off_id = Val (ascii ''7310130006883'') \<rparr>]
   \<and> cache (searchProductsByName oats_env [Throws (Error Undefined)] []) = []
   \<and> cache (searchProductsByName oats_env [] []) = [new_cache_row (Val (ascii ''7310130006883'')) oats]"
proof -
  have c: "cache (searchProductsByName oats_env [Throws (Error Undefined)] []) = []"
    by (simp add: search_unrolled try_attempt_def oats_env_def oats_def cacheSearchResults_def
        cache_product_def js_eval del: One_nat_def)
  show ?thesis
    using cache_failures_contained [of oats_env "[Throws (Error Undefined)]" "[]"] c
    by (simp add: oats_run)
qed

text \<open>
  Claim C6. When a call returns a sequence, the sequence is empty or it is, element by
  element, the normalisation of the array the endpoint answered one of the attempts
  with: a numeric field that is absent in the raw object is 0, an absent brand or image
  address is the empty text, and \<open>off_id\<close> is a non-empty text, namely the raw
  \<open>off_id\<close> if that is a non-empty text, else the raw barcode if that is one, else the
  identifier synthesized from the raw name and brand.
\<close>

theorem returned_records_normalized:
  assumes "outcome (searchProductsByName env fs rows) = Inr ps"
  shows "ps = [] \<or>
    (\<exists>a items. 1 \<le> a \<and> a \<le> maxRetries \<and> invoke env a = Resolves (Items items) None
       \<and> length ps = length items
       \<and> (\<forall>i < length items. normalized_from (date_now env i) (items ! i) (ps ! i)))"
proof (cases "ps = []")
  case True
  then show ?thesis by simp
next
  case False
  then obtain a r where a: "1 \<le> a \<and> a \<le> maxRetries"
    and t: "try_attempt env fs rows a = Returned ps r"
    using search_Inr [OF assms] by blast
  then obtain items where i: "invoke env a = Resolves (Items items) None"
    and ps: "ps = map (\<lambda>(i, item). normalize (date_now env i) item) (zip [0..<length items] items)"
    using try_attempt_Returned [OF t] False by blast
  have "length ps = length items" using ps by simp
  moreover have "\<forall>i < length items. normalized_from (date_now env i) (items ! i) (ps ! i)"
    using ps by (simp add: normalize_post)
  ultimately show ?thesis using a i by blast
qed

text \<open>Claim C6 at the search that finds the record \<open>Banana\<close>.\<close>

theorem returned_records_normalized_witness:
  "outcome (searchProductsByName banana_env [] []) =
     Inr [\<lparr> name = Val (ascii ''Banana''), brand = [], calories = Num 89,
            protein = Num 0, fat = Num 0, carbs = Num 0, sugar = Undefined,
            image_url = [], off_id = Val (ascii ''temp_1209'') \<rparr>]
   \<and> normalized_from 1700000000000 banana
       \<lparr> name = Val (ascii ''Banana''), brand = [], calories = Num 89,
         protein = Num 0, fat = Num 0, carbs = Num 0, sugar = Undefined,
         image_url = [], off_id = Val (ascii ''temp_1209'') \<rparr>"
proof -
  have o: "outcome (searchProductsByName banana_env [] []) =
     Inr [\<lparr> name = Val (ascii ''Banana''), brand = [], calories = Num 89,
            protein = Num 0, fat = Num 0, carbs = Num 0, sugar = Undefined,
            image_url = [], off_id = Val (ascii ''temp_1209'') \<rparr>]"
    by (simp add: banana_run)
  have i: "\<And>a. invoke banana_env a = Resolves (Items [banana]) None"
    and d: "\<And>i. date_now banana_env i = 1700000000000"
    by (simp_all add: banana_env_def)
  show ?thesis using returned_records_normalized [OF o] o by (auto simp add: i d)
qed

section \<open>Adding a food to a meal\<close>

text \<open>
  Claim C10. A call of \<open>addFoodToMeal\<close> leaves the rows of \<open>maltidsinlagg\<close> as they
  were and appends at most one row, exactly one when it returns without an error. The
  quantity of that row is \<open>quantityGrams\<close> when \<open>quantityGrams\<close> is greater than 0,
  and 100 when \<open>quantityGrams\<close> is at most 0.
\<close>

theorem addFoodToMeal_quantity:
  assumes "addFoodToMeal env d logId product quantityGrams mealType = (res, d')"
  shows "\<exists>new. maltidsinlagg d' = maltidsinlagg d @ new
     \<and> length new \<le> 1
     \<and> (res = Inr () \<longrightarrow> length new = 1)
     \<and> (\<forall>row \<in> set new.
          (js_gt0 quantityGrams \<longrightarrow> antal_gram row = quantityGrams)
          \<and> (js_le0 quantityGrams \<longrightarrow> antal_gram row = Num 100))"
proof -
  have le: "js_le0 quantityGrams \<Longrightarrow> \<not> js_gt0 quantityGrams"
    by (auto simp add: js_le0_def js_gt0_def split: jsnum.splits)
  have ins: "\<And>e d0 row r0 d1. insert_meal e d0 row = (r0, d1) \<Longrightarrow>
     (r0 = Inr () \<and> maltidsinlagg d1 = maltidsinlagg d0 @ [row])
     \<or> (r0 \<noteq> Inr () \<and> maltidsinlagg d1 = maltidsinlagg d0)"
    by (auto simp add: insert_meal_def split: store_outcome.splits)
  show ?thesis
    using assms le
    by (auto simp add: addFoodToMeal_def Let_def dest!: ins split: if_splits store_outcome.splits)
qed

text \<open>
  Claim C10 at a call with the quantity \<open>-5\<close> on an empty database: the row is stored
  with 100 grams.
\<close>

theorem addFoodToMeal_quantity_witness:
  "addFoodToMeal working_meal_env empty_db (ascii ''log-1'') banana_product (Num (- 5)) None =
     (Inr (), \<lparr> livsmedelskache = [],
               maltidsinlagg = [\<lparr> daglig_logg_id = ascii ''log-1'', maltidstyp = ascii ''frukost'',
                                  meal_off_id = Val (ascii ''temp_1209''),
                                  custom_namn = Val (ascii ''Banana''), antal_gram = Num 100 \<rparr>] \<rparr>)
   \<and> js_le0 (Num (- 5))"
proof -
  have e: "addFoodToMeal working_meal_env empty_db (ascii ''log-1'') banana_product (Num (- 5)) None =
     (Inr (), \<lparr> livsmedelskache = [],
               maltidsinlagg = [\<lparr> daglig_logg_id = ascii ''log-1'', maltidstyp = ascii ''frukost'',
                                  meal_off_id = Val (ascii ''temp_1209''),
                                  custom_namn = Val (ascii ''Banana''), antal_gram = Num 100 \<rparr>] \<rparr>)"
    by (simp add: addFoodToMeal_def insert_meal_def working_meal_env_def empty_db_def
        banana_product_def ascii_lower_def js_gt0_def js_eval)
  show ?thesis using addFoodToMeal_quantity [OF e] e by (simp add: js_le0_def)
qed

end
